theory Spec2Isabelle
  imports Complex_Main
begin

section \<open>Values of the document store\<close>

text \<open>
  Document ids are natural numbers, instants are milliseconds since the epoch, and a
  JavaScript \<open>Number\<close> that holds money, a quantity or a rating is an exact rational:
  the arithmetic below is the arithmetic of the source without binary rounding error.
\<close>

type_synonym oid = nat
type_synonym time = int
type_synonym number = rat

text \<open>\<open>Math.round\<close>: the nearest integer, a tie going up.\<close>

definition Math_round :: "number \<Rightarrow> number" where
  "Math_round x = of_int \<lfloor>x + 1 / 2\<rfloor>"

text \<open>\<open>a || b\<close> on an optional number: \<open>undefined\<close> and \<open>0\<close> are falsy.\<close>

definition num_or :: "number option \<Rightarrow> number \<Rightarrow> number" where
  "num_or a b = (case a of None \<Rightarrow> b | Some x \<Rightarrow> if x = 0 then b else x)"

text \<open>\<open>String.prototype.trim\<close> on ASCII text, as the schema option \<open>trim: true\<close> applies it.\<close>

definition is_ws :: "char \<Rightarrow> bool" where
  "is_ws c = (c \<in> set [CHR '' '', CHR 0x09, CHR 0x0A, CHR 0x0B, CHR 0x0C, CHR 0x0D])"

definition js_trim :: "string \<Rightarrow> string" where
  "js_trim s = rev (dropWhile is_ws (rev (dropWhile is_ws s)))"

text \<open>The user-schema role enum and the string the controllers read from \<open>req.user.role\<close>.\<close>

datatype role = Customer | RestaurantOwner | Admin

fun role_name :: "role \<Rightarrow> string" where
  "role_name Customer = ''customer''"
| "role_name RestaurantOwner = ''restaurant_owner''"
| "role_name Admin = ''admin''"

record user =
  u_id :: oid
  u_role :: role

section \<open>Catalog documents\<close>

record menu_variant =
  variant_name :: string
  variant_price :: number
  variant_discountedPrice :: "number option"
  variant_isAvailable :: bool

record menu_addOn =
  addOn_name :: string
  addOn_price :: number
  addOn_isAvailable :: bool

record menuItem =
  mi_id :: oid
  mi_name :: string
  mi_price :: number
  mi_discountedPrice :: "number option"
  mi_isAvailable :: bool
  mi_variants :: "menu_variant list"
  mi_addOns :: "menu_addOn list"
  mi_rating_average :: number
  mi_rating_count :: nat

record restaurant =
  r_id :: oid
  r_owner :: oid
  r_isActive :: bool
  r_minimumOrder :: number
  r_deliveryFee :: number
  r_rating_average :: number
  r_rating_count :: nat

record address =
  a_id :: oid
  a_user :: oid

section \<open>Orders\<close>

datatype order_status =
  Pending | Confirmed | Preparing | ReadyForPickup | OutForDelivery
  | Delivered | Cancelled | Refunded

fun status_name :: "order_status \<Rightarrow> string" where
  "status_name Pending = ''pending''"
| "status_name Confirmed = ''confirmed''"
| "status_name Preparing = ''preparing''"
| "status_name ReadyForPickup = ''ready_for_pickup''"
| "status_name OutForDelivery = ''out_for_delivery''"
| "status_name Delivered = ''delivered''"
| "status_name Cancelled = ''cancelled''"
| "status_name Refunded = ''refunded''"

text \<open>What a cart line of the request body carries.\<close>

record cart_variant =
  cv_name :: string
  cv_price :: "number option"

record cart_addOn =
  ca_name :: string
  ca_price :: "number option"

record cart_option =
  co_name :: string
  co_priceModifier :: "number option"

record cart_customization =
  cc_name :: string
  cc_selectedOptions :: "cart_option list"

text \<open>
  \<open>cl_addOns\<close> and \<open>cl_customizations\<close> are \<open>[]\<close> when the body leaves them out: the
  source skips an absent list and an empty one alike and stores \<open>[]\<close> for both.
\<close>

record cart_line =
  cl_menuItem :: oid
  cl_quantity :: number
  cl_variant :: "cart_variant option"
  cl_addOns :: "cart_addOn list"
  cl_customizations :: "cart_customization list"
  cl_specialInstructions :: "string option"

record order_item =
  oi_menuItem :: oid
  oi_name :: string
  oi_price :: number
  oi_quantity :: number
  oi_variant :: "cart_variant option"
  oi_addOns :: "cart_addOn list"
  oi_customizations :: "cart_customization list"
  oi_specialInstructions :: "string option"
  oi_itemTotal :: number

record pricing =
  subtotal :: number
  deliveryFee :: number
  cgst :: number
  sgst :: number
  igst :: number
  platformFee :: number
  packagingFee :: number
  total :: number

record otp =
  otp_code :: string
  otp_expiresAt :: time

record cancellationDetails =
  cd_reason :: string
  cd_cancelledBy :: string
  cd_refundAmount :: number
  cd_refundStatus :: string

text \<open>
  The order document. The order number, the estimated delivery time and the timestamps
  are left out: order creation always fills them with values the schema accepts and no
  operation below reads them.
\<close>

record order =
  o_id :: oid
  o_customer :: oid
  o_restaurant :: oid
  o_deliveryPartner :: "oid option"
  o_items :: "order_item list"
  o_deliveryAddress :: oid
  o_orderStatus :: order_status
  o_paymentMethod :: string
  o_pricing :: pricing
  o_actualDeliveryTime :: "time option"
  o_timeline :: "(string \<times> time) list"
  o_specialInstructions :: "string option"
  o_cancellationReason :: "string option"
  o_cancellationDetails :: "cancellationDetails option"
  o_otp :: "otp option"

section \<open>Delivery partners and reviews\<close>

record partner =
  dp_id :: oid
  dp_user :: oid
  dp_isOnline :: bool
  dp_isApproved :: bool
  dp_totalOrders :: number
  dp_completedOrders :: number
  dp_completionRate :: number
  dp_rating_average :: number
  dp_rating_count :: nat
  dp_currentOrder :: "oid option"

record review =
  rv_id :: oid
  rv_order :: oid
  rv_restaurant :: oid
  rv_deliveryPartner :: "oid option"
  rv_menuItems :: "(oid \<times> number) list"
  rv_food :: number
  rv_delivery :: number
  rv_service :: number
  rv_overall :: number
  rv_isHidden :: bool

text \<open>The collections, each a list of documents in insertion order.\<close>

record db =
  db_restaurants :: "restaurant list"
  db_addresses :: "address list"
  db_menuItems :: "menuItem list"
  db_orders :: "order list"
  db_partners :: "partner list"
  db_reviews :: "review list"

datatype error =
  RestaurantNotAvailable
  | InvalidDeliveryAddress
  | MenuItemNotAvailable string
  | MinimumOrderValue number
  | OrderNotFound
  | AccessDenied
  | CannotChangeStatus order_status string
  | DeliveryPartnerNotAvailable
  | CannotBeCancelled
  | InvalidOrExpiredOTP
  | MustBeOnline
  | AlreadyHaveActiveOrder
  | OrderNotAvailableForPickup
  | ProfileNotFound
  | ProfileNotApproved
  | DeliveryPartnerNotFound
  | ValidationError
  | DuplicateKey
  | TypeError

section \<open>Order creation\<close>

text \<open>
  The body of the loop over the cart lines, once the menu item is known to be available:
  the unit price, then the add-ons, then the customizations.
\<close>

definition itemPrice_of :: "menuItem \<Rightarrow> cart_line \<Rightarrow> number" where
  "itemPrice_of m item =
     (case cl_variant item of
        None \<Rightarrow> mi_price m
      | Some cv \<Rightarrow>
          (case find (\<lambda>v. variant_name v = cv_name cv) (mi_variants m) of
             None \<Rightarrow> mi_price m
           | Some v \<Rightarrow> num_or (variant_discountedPrice v) (variant_price v)))"

definition add_addOn :: "menuItem \<Rightarrow> number \<Rightarrow> cart_addOn \<Rightarrow> number \<Rightarrow> number" where
  "add_addOn m q a itemTotal =
     (case find (\<lambda>ma. addOn_name ma = ca_name a) (mi_addOns m) of
        None \<Rightarrow> itemTotal
      | Some ma \<Rightarrow> if addOn_isAvailable ma then itemTotal + addOn_price ma * q else itemTotal)"

definition add_customization :: "number \<Rightarrow> cart_customization \<Rightarrow> number \<Rightarrow> number" where
  "add_customization q c itemTotal =
     fold (\<lambda>opt t. t + num_or (co_priceModifier opt) 0 * q) (cc_selectedOptions c) itemTotal"

definition itemTotal_of :: "menuItem \<Rightarrow> cart_line \<Rightarrow> number" where
  "itemTotal_of m item =
     (let q = cl_quantity item;
          t0 = itemPrice_of m item * q;
          t1 = fold (add_addOn m q) (cl_addOns item) t0
      in fold (add_customization q) (cl_customizations item) t1)"

definition order_line :: "menuItem \<Rightarrow> cart_line \<Rightarrow> order_item" where
  "order_line m item =
     \<lparr> oi_menuItem = mi_id m, oi_name = mi_name m, oi_price = itemPrice_of m item,
       oi_quantity = cl_quantity item, oi_variant = cl_variant item,
       oi_addOns = cl_addOns item, oi_customizations = cl_customizations item,
       oi_specialInstructions = cl_specialInstructions item,
       oi_itemTotal = itemTotal_of m item \<rparr>"

text \<open>The loop itself: it returns at the first menu item that is missing or unavailable.\<close>

fun order_lines ::
  "menuItem list \<Rightarrow> cart_line list \<Rightarrow> number \<Rightarrow> order_item list
     \<Rightarrow> error + (number \<times> order_item list)" where
  "order_lines mis [] sub acc = Inr (sub, acc)"
| "order_lines mis (item # rest) sub acc =
     (case find (\<lambda>m. mi_id m = cl_menuItem item) mis of
        None \<Rightarrow> Inl (MenuItemNotAvailable ''not found'')
      | Some m \<Rightarrow>
          if \<not> mi_isAvailable m
          then Inl (MenuItemNotAvailable (if mi_name m = [] then ''not found'' else mi_name m))
          else order_lines mis rest (sub + itemTotal_of m item) (acc @ [order_line m item]))"

text \<open>
  The validators of the order schema. \<open>save\<close> and \<open>create\<close> run them over the whole
  document before the schema's own hooks and before anything is written.
\<close>

definition paymentMethod_enum :: "string list" where
  "paymentMethod_enum = [''cash_on_delivery'', ''card'', ''upi'', ''wallet'', ''net_banking'']"

definition valid_addOn :: "cart_addOn \<Rightarrow> bool" where
  "valid_addOn a = (ca_name a \<noteq> [] \<and> (case ca_price a of None \<Rightarrow> False | Some p \<Rightarrow> 0 \<le> p))"

definition valid_instructions :: "nat \<Rightarrow> string option \<Rightarrow> bool" where
  "valid_instructions n s = (case s of None \<Rightarrow> True | Some t \<Rightarrow> length (js_trim t) \<le> n)"

definition valid_item :: "order_item \<Rightarrow> bool" where
  "valid_item i =
     (oi_name i \<noteq> [] \<and> 0 \<le> oi_price i \<and> 1 \<le> oi_quantity i
      \<and> list_all valid_addOn (oi_addOns i)
      \<and> list_all (\<lambda>c. cc_name c \<noteq> []) (oi_customizations i)
      \<and> valid_instructions 200 (oi_specialInstructions i)
      \<and> 0 \<le> oi_itemTotal i)"

definition valid_pricing :: "pricing \<Rightarrow> bool" where
  "valid_pricing p =
     (0 \<le> subtotal p \<and> 0 \<le> deliveryFee p \<and> 0 \<le> platformFee p
      \<and> 0 \<le> packagingFee p \<and> 0 \<le> total p)"

definition timeline_enum :: "string list" where
  "timeline_enum =
     [''order_placed'', ''payment_confirmed'', ''order_confirmed'', ''preparing'',
      ''ready_for_pickup'', ''picked_up'', ''out_for_delivery'', ''delivered'', ''cancelled'']"

definition cancellationReason_enum :: "string list" where
  "cancellationReason_enum =
     [''customer_request'', ''restaurant_unavailable'', ''item_unavailable'',
      ''payment_failed'', ''delivery_partner_unavailable'', ''weather_conditions'', ''other'']"

definition cancelledBy_enum :: "string list" where
  "cancelledBy_enum = [''customer'', ''restaurant'', ''admin'', ''system'']"

definition refundStatus_enum :: "string list" where
  "refundStatus_enum = [''pending'', ''processed'', ''failed'']"

definition valid_cancellationDetails :: "cancellationDetails \<Rightarrow> bool" where
  "valid_cancellationDetails c =
     (cd_cancelledBy c \<in> set cancelledBy_enum \<and> cd_refundStatus c \<in> set refundStatus_enum)"

definition valid_order :: "order \<Rightarrow> bool" where
  "valid_order ord =
     (list_all valid_item (o_items ord)
      \<and> o_paymentMethod ord \<in> set paymentMethod_enum
      \<and> valid_pricing (o_pricing ord)
      \<and> list_all (\<lambda>e. fst e \<in> set timeline_enum) (o_timeline ord)
      \<and> valid_instructions 500 (o_specialInstructions ord)
      \<and> (case o_cancellationReason ord of None \<Rightarrow> True
           | Some r \<Rightarrow> r \<in> set cancellationReason_enum)
      \<and> (case o_cancellationDetails ord of None \<Rightarrow> True
           | Some c \<Rightarrow> valid_cancellationDetails c))"

record order_request =
  rq_restaurant :: oid
  rq_items :: "cart_line list"
  rq_deliveryAddress :: oid
  rq_paymentMethod :: string
  rq_specialInstructions :: "string option"

text \<open>
  The pricing block of \<open>createOrder\<close>, from the subtotal and the restaurant's delivery
  fee (\<open>restaurantData.deliveryFee || 0\<close>).
\<close>

definition price_order :: "number \<Rightarrow> number \<Rightarrow> pricing" where
  "price_order sub fee =
     (let deliveryFee = (if fee = 0 then 0 else fee);
          platformFee = Math_round (sub * (2 / 100));
          packagingFee = 10;
          taxRate = 5 / 100;
          cgst = Math_round (((sub * taxRate) / 2) * 100) / 100;
          sgst = Math_round (((sub * taxRate) / 2) * 100) / 100
      in \<lparr> subtotal = sub, deliveryFee = deliveryFee, cgst = cgst, sgst = sgst, igst = 0,
           platformFee = platformFee, packagingFee = packagingFee,
           total = sub + deliveryFee + platformFee + packagingFee + cgst + sgst \<rparr>)"

text \<open>
  \<open>createOrder\<close>: \<open>now\<close> is the clock, \<open>otpCode\<close> the code \<open>generateOTP(4)\<close> drew and
  \<open>new_id\<close> the id the store gives the document; \<open>orderStatus\<close> takes its schema
  default. The result is the created document; the timeline hook adds nothing here, the
  defaulted status not being a modified path of a new document.
\<close>

definition createOrder ::
  "db \<Rightarrow> user \<Rightarrow> order_request \<Rightarrow> time \<Rightarrow> string \<Rightarrow> oid \<Rightarrow> error + order" where
  "createOrder d usr rq now otpCode new_id =
     (case find (\<lambda>r. r_id r = rq_restaurant rq) (db_restaurants d) of
        None \<Rightarrow> Inl RestaurantNotAvailable
      | Some restaurantData \<Rightarrow>
          if \<not> r_isActive restaurantData then Inl RestaurantNotAvailable
          else
            (case find (\<lambda>a. a_id a = rq_deliveryAddress rq \<and> a_user a = u_id usr)
                    (db_addresses d) of
               None \<Rightarrow> Inl InvalidDeliveryAddress
             | Some _ \<Rightarrow>
                 (case order_lines (db_menuItems d) (rq_items rq) 0 [] of
                    Inl e \<Rightarrow> Inl e
                  | Inr (sub, orderItems) \<Rightarrow>
                      if sub < r_minimumOrder restaurantData
                      then Inl (MinimumOrderValue (r_minimumOrder restaurantData))
                      else
                        (let ord =
                           \<lparr> o_id = new_id, o_customer = u_id usr,
                             o_restaurant = rq_restaurant rq, o_deliveryPartner = None,
                             o_items = orderItems,
                             o_deliveryAddress = rq_deliveryAddress rq,
                             o_orderStatus = Pending,
                             o_paymentMethod = rq_paymentMethod rq,
                             o_pricing = price_order sub (r_deliveryFee restaurantData),
                             o_actualDeliveryTime = None, o_timeline = [],
                             o_specialInstructions = rq_specialInstructions rq,
                             o_cancellationReason = None, o_cancellationDetails = None,
                             o_otp = Some \<lparr> otp_code = otpCode,
                                            otp_expiresAt = now + 30 * 60000 \<rparr> \<rparr>
                         in if valid_order ord then Inr ord else Inl ValidationError))))"

section \<open>Saving an order\<close>

definition find_order :: "db \<Rightarrow> oid \<Rightarrow> order option" where
  "find_order d i = find (\<lambda>x. o_id x = i) (db_orders d)"

definition put_order :: "order \<Rightarrow> db \<Rightarrow> db" where
  "put_order ord d =
     d\<lparr>db_orders := map (\<lambda>x. if o_id x = o_id ord then ord else x) (db_orders d)\<rparr>"

text \<open>The status word the timeline hook pushes.\<close>

fun timeline_status :: "order_status \<Rightarrow> string" where
  "timeline_status Pending = ''order_placed''"
| "timeline_status Confirmed = ''order_confirmed''"
| "timeline_status s = status_name s"

text \<open>
  \<open>order.save()\<close> on a document loaded as \<open>old\<close> and changed to \<open>doc\<close>: the document
  is validated, then the hook appends a timeline entry when the status changed, then the
  document replaces the stored one. A validation error is thrown before anything is
  written.
\<close>

definition order_save :: "time \<Rightarrow> order \<Rightarrow> order \<Rightarrow> db \<Rightarrow> error + db" where
  "order_save now old doc d =
     (if \<not> valid_order doc then Inl ValidationError
      else Inr (put_order
                  (if o_orderStatus doc \<noteq> o_orderStatus old
                   then doc\<lparr>o_timeline := o_timeline doc @ [(timeline_status (o_orderStatus doc), now)]\<rparr>
                   else doc) d))"

section \<open>The order state machine\<close>

fun validTransitions :: "order_status \<Rightarrow> order_status list" where
  "validTransitions Pending = [Confirmed, Cancelled]"
| "validTransitions Confirmed = [Preparing, Cancelled]"
| "validTransitions Preparing = [ReadyForPickup, Cancelled]"
| "validTransitions ReadyForPickup = [OutForDelivery, Cancelled]"
| "validTransitions OutForDelivery = [Delivered, Cancelled]"
| "validTransitions Delivered = []"
| "validTransitions Cancelled = []"
| "validTransitions Refunded = []"

text \<open>
  The populated references: \<open>order.restaurant.owner\<close> (the restaurant document may be
  gone, and then \<open>order.restaurant\<close> is \<open>null\<close>) and \<open>order.deliveryPartner?.user\<close>.
\<close>

definition populated_restaurant :: "db \<Rightarrow> order \<Rightarrow> restaurant option" where
  "populated_restaurant d ord = find (\<lambda>r. r_id r = o_restaurant ord) (db_restaurants d)"

definition partner_user :: "db \<Rightarrow> order \<Rightarrow> oid option" where
  "partner_user d ord =
     (case o_deliveryPartner ord of
        None \<Rightarrow> None
      | Some p \<Rightarrow> map_option dp_user (find (\<lambda>x. dp_id x = p) (db_partners d)))"

text \<open>
  The permission check of \<open>updateOrderStatus\<close>, with the short circuit of \<open>||\<close>: an admin
  passes before the restaurant is read; for anyone else reading \<open>.owner\<close> of a missing
  restaurant throws.
\<close>

definition canUpdate :: "db \<Rightarrow> user \<Rightarrow> order \<Rightarrow> string \<Rightarrow> error + bool" where
  "canUpdate d usr ord status =
     (if u_role usr = Admin then Inr True
      else case populated_restaurant d ord of
             None \<Rightarrow> Inl TypeError
           | Some r \<Rightarrow>
               Inr (r_owner r = u_id usr
                    \<or> partner_user d ord = Some (u_id usr)
                    \<or> (status = ''cancelled'' \<and> o_customer ord = u_id usr)))"

definition str_or :: "string option \<Rightarrow> string \<Rightarrow> string" where
  "str_or a b = (case a of None \<Rightarrow> b | Some s \<Rightarrow> if s = [] then b else s)"

text \<open>
  \<open>updateOrderStatus\<close>. The requested status is the string of the request body; the
  \<open>includes\<close> test looks it up among the names of the allowed targets, and the assignment
  stores the status so named.
\<close>

definition updateOrderStatus ::
  "db \<Rightarrow> user \<Rightarrow> time \<Rightarrow> oid \<Rightarrow> string \<Rightarrow> string option \<Rightarrow> error + db" where
  "updateOrderStatus d usr now i status reason =
     (case find_order d i of
        None \<Rightarrow> Inl OrderNotFound
      | Some ord \<Rightarrow>
          (case canUpdate d usr ord status of
             Inl e \<Rightarrow> Inl e
           | Inr ok \<Rightarrow>
               if \<not> ok then Inl AccessDenied
               else
                 (case find (\<lambda>t. status_name t = status) (validTransitions (o_orderStatus ord)) of
                    None \<Rightarrow> Inl (CannotChangeStatus (o_orderStatus ord) status)
                  | Some t \<Rightarrow>
                      (let o1 = ord\<lparr>o_orderStatus := t\<rparr>;
                           o2 = (if status = ''cancelled''
                                 then o1\<lparr>o_cancellationReason := Some ''customer_request'',
                                         o_cancellationDetails := Some
                                           \<lparr> cd_reason = str_or reason ''No reason provided'',
                                             cd_cancelledBy = role_name (u_role usr),
                                             cd_refundAmount = total (o_pricing ord),
                                             cd_refundStatus = ''pending'' \<rparr>\<rparr>
                                 else o1);
                           o3 = (if status = ''delivered''
                                 then o2\<lparr>o_actualDeliveryTime := Some now\<rparr> else o2)
                       in order_save now ord o3 d))))"

definition cancellableStatuses :: "order_status list" where
  "cancellableStatuses = [Pending, Confirmed, Preparing]"

definition cancelOrder :: "db \<Rightarrow> user \<Rightarrow> time \<Rightarrow> oid \<Rightarrow> string option \<Rightarrow> error + db" where
  "cancelOrder d usr now i reason =
     (case find_order d i of
        None \<Rightarrow> Inl OrderNotFound
      | Some ord \<Rightarrow>
          if \<not> (o_customer ord = u_id usr \<or> u_role usr = Admin) then Inl AccessDenied
          else if o_orderStatus ord \<notin> set cancellableStatuses then Inl CannotBeCancelled
          else order_save now ord
                 (ord\<lparr>o_orderStatus := Cancelled,
                      o_cancellationReason := Some ''customer_request'',
                      o_cancellationDetails := Some
                        \<lparr> cd_reason = str_or reason ''Customer requested cancellation'',
                          cd_cancelledBy = ''customer'',
                          cd_refundAmount = total (o_pricing ord),
                          cd_refundStatus = ''pending'' \<rparr>\<rparr>) d)"

text \<open>
  \<open>verifyDeliveryOTP\<close>. The supplied code is \<open>None\<close> when the body has no \<open>otp\<close>. On an
  order whose \<open>otp\<close> was cleared, \<open>order.otp.code\<close> and \<open>order.otp.expiresAt\<close> read
  \<open>undefined\<close>: \<open>!==\<close> then holds for every supplied string and \<open>new Date() > undefined\<close>
  is false.
\<close>

definition otp_rejected :: "otp option \<Rightarrow> time \<Rightarrow> string option \<Rightarrow> bool" where
  "otp_rejected stored now supplied =
     (map_option otp_code stored \<noteq> supplied
      \<or> (case stored of None \<Rightarrow> False | Some t \<Rightarrow> now > otp_expiresAt t))"

definition verifyDeliveryOTP :: "db \<Rightarrow> time \<Rightarrow> oid \<Rightarrow> string option \<Rightarrow> error + db" where
  "verifyDeliveryOTP d now i supplied =
     (case find_order d i of
        None \<Rightarrow> Inl OrderNotFound
      | Some ord \<Rightarrow>
          if otp_rejected (o_otp ord) now supplied then Inl InvalidOrExpiredOTP
          else order_save now ord
                 (ord\<lparr>o_orderStatus := Delivered, o_actualDeliveryTime := Some now,
                      o_otp := None\<rparr>) d)"

section \<open>Attaching a delivery partner\<close>

definition find_partner :: "db \<Rightarrow> oid \<Rightarrow> partner option" where
  "find_partner d p = find (\<lambda>x. dp_id x = p) (db_partners d)"

definition find_partner_of_user :: "db \<Rightarrow> oid \<Rightarrow> partner option" where
  "find_partner_of_user d u = find (\<lambda>x. dp_user x = u) (db_partners d)"

text \<open>
  \<open>deliveryPartner.save()\<close>: the document is validated, then the hook recomputes the
  completion rate, then the write.
\<close>

definition valid_partner :: "partner \<Rightarrow> bool" where
  "valid_partner p =
     (0 \<le> dp_rating_average p \<and> dp_rating_average p \<le> 5
      \<and> 0 \<le> dp_completionRate p \<and> dp_completionRate p \<le> 100)"

definition completion_hook :: "partner \<Rightarrow> partner" where
  "completion_hook p =
     (if dp_totalOrders p > 0
      then p\<lparr>dp_completionRate := Math_round ((dp_completedOrders p / dp_totalOrders p) * 100)\<rparr>
      else p)"

definition partner_save :: "partner \<Rightarrow> db \<Rightarrow> error + db" where
  "partner_save p d =
     (if \<not> valid_partner p then Inl ValidationError
      else Inr (d\<lparr>db_partners :=
                   map (\<lambda>x. if dp_id x = dp_id p then completion_hook p else x)
                     (db_partners d)\<rparr>))"

definition assignDeliveryPartner :: "db \<Rightarrow> user \<Rightarrow> time \<Rightarrow> oid \<Rightarrow> oid \<Rightarrow> error + db" where
  "assignDeliveryPartner d usr now i deliveryPartnerId =
     (case find_order d i of
        None \<Rightarrow> Inl OrderNotFound
      | Some ord \<Rightarrow>
          (case populated_restaurant d ord of
             None \<Rightarrow> Inl TypeError
           | Some r \<Rightarrow>
               if r_owner r \<noteq> u_id usr \<and> u_role usr \<noteq> Admin then Inl AccessDenied
               else
                 (case find_partner d deliveryPartnerId of
                    None \<Rightarrow> Inl DeliveryPartnerNotAvailable
                  | Some deliveryPartner \<Rightarrow>
                      if \<not> dp_isOnline deliveryPartner then Inl DeliveryPartnerNotAvailable
                      else order_save now ord
                             (ord\<lparr>o_deliveryPartner := Some deliveryPartnerId\<rparr>) d)))"

text \<open>
  \<open>acceptOrder\<close> saves two documents, the order first. When the partner's save is
  rejected the order stays written, so a failure carries the store it leaves behind.
\<close>

definition acceptOrder :: "db \<Rightarrow> user \<Rightarrow> time \<Rightarrow> oid \<Rightarrow> error \<times> db + db" where
  "acceptOrder d usr now i =
     (case find_partner_of_user d (u_id usr) of
        None \<Rightarrow> Inl (MustBeOnline, d)
      | Some deliveryPartner \<Rightarrow>
          if \<not> dp_isOnline deliveryPartner then Inl (MustBeOnline, d)
          else if dp_currentOrder deliveryPartner \<noteq> None then Inl (AlreadyHaveActiveOrder, d)
          else
            (case find_order d i of
               None \<Rightarrow> Inl (OrderNotAvailableForPickup, d)
             | Some ord \<Rightarrow>
                 if o_orderStatus ord \<noteq> ReadyForPickup \<or> o_deliveryPartner ord \<noteq> None
                 then Inl (OrderNotAvailableForPickup, d)
                 else
                   (case order_save now ord
                           (ord\<lparr>o_deliveryPartner := Some (dp_id deliveryPartner),
                                o_orderStatus := OutForDelivery\<rparr>) d of
                      Inl e \<Rightarrow> Inl (e, d)
                    | Inr d1 \<Rightarrow>
                        (case partner_save
                                (deliveryPartner
                                   \<lparr>dp_currentOrder := Some (o_id ord),
                                    dp_totalOrders := dp_totalOrders deliveryPartner + 1\<rparr>)
                                d1 of
                           Inl e \<Rightarrow> Inl (e, d1)
                         | Inr d2 \<Rightarrow> Inr d2))))"

section \<open>The partner's own profile\<close>

text \<open>
  The body of a profile update, restricted to the paths of the partner document kept
  here; a field is \<open>None\<close> when the body leaves its path out. \<open>pb_currentOrder = Some None\<close>
  is the body \<open>{"currentOrder": null}\<close>. A nested object (\<open>statistics\<close>) is given in full.
\<close>

record statistics_body =
  sb_totalOrders :: number
  sb_completedOrders :: number
  sb_completionRate :: number
  sb_rating_average :: number
  sb_rating_count :: nat

record profile_body =
  pb_isOnline :: "bool option"
  pb_isApproved :: "bool option"
  pb_statistics :: "statistics_body option"
  pb_currentOrder :: "oid option option"

text \<open>\<open>Object.assign(deliveryPartner, req.body)\<close>: every path of the body is set.\<close>

definition Object_assign :: "partner \<Rightarrow> profile_body \<Rightarrow> partner" where
  "Object_assign p body =
     (let p1 = (case pb_isOnline body of None \<Rightarrow> p | Some b \<Rightarrow> p\<lparr>dp_isOnline := b\<rparr>);
          p2 = (case pb_isApproved body of None \<Rightarrow> p1 | Some b \<Rightarrow> p1\<lparr>dp_isApproved := b\<rparr>);
          p3 = (case pb_statistics body of
                  None \<Rightarrow> p2
                | Some st \<Rightarrow>
                    p2\<lparr>dp_totalOrders := sb_totalOrders st,
                       dp_completedOrders := sb_completedOrders st,
                       dp_completionRate := sb_completionRate st,
                       dp_rating_average := sb_rating_average st,
                       dp_rating_count := sb_rating_count st\<rparr>)
      in (case pb_currentOrder body of None \<Rightarrow> p3 | Some c \<Rightarrow> p3\<lparr>dp_currentOrder := c\<rparr>))"

definition updateMyProfile :: "db \<Rightarrow> user \<Rightarrow> profile_body \<Rightarrow> error + db" where
  "updateMyProfile d usr body =
     (case find_partner_of_user d (u_id usr) of
        None \<Rightarrow> Inl ProfileNotFound
      | Some deliveryPartner \<Rightarrow> partner_save (Object_assign deliveryPartner body) d)"

definition updateAvailability :: "db \<Rightarrow> user \<Rightarrow> bool \<Rightarrow> error + db" where
  "updateAvailability d usr isOnline =
     (case find_partner_of_user d (u_id usr) of
        None \<Rightarrow> Inl ProfileNotFound
      | Some deliveryPartner \<Rightarrow>
          if \<not> dp_isApproved deliveryPartner then Inl ProfileNotApproved
          else partner_save (deliveryPartner\<lparr>dp_isOnline := isOnline\<rparr>) d)"

definition updateApprovalStatus :: "db \<Rightarrow> oid \<Rightarrow> bool \<Rightarrow> error + db" where
  "updateApprovalStatus d i isApproved =
     (case find_partner d i of
        None \<Rightarrow> Inl DeliveryPartnerNotFound
      | Some deliveryPartner \<Rightarrow> partner_save (deliveryPartner\<lparr>dp_isApproved := isApproved\<rparr>) d)"

section \<open>Saving a review\<close>

definition valid_rating :: "number \<Rightarrow> bool" where
  "valid_rating x = (1 \<le> x \<and> x \<le> 5)"

definition valid_review :: "review \<Rightarrow> bool" where
  "valid_review r =
     (valid_rating (rv_food r) \<and> valid_rating (rv_delivery r) \<and> valid_rating (rv_service r)
      \<and> valid_rating (rv_overall r) \<and> list_all (\<lambda>e. valid_rating (snd e)) (rv_menuItems r))"

text \<open>
  The hook before the save: the overall rating is recomputed when one of the three
  sub-ratings is a modified path (\<open>modified\<close>).
\<close>

definition overall_hook :: "bool \<Rightarrow> review \<Rightarrow> review" where
  "overall_hook modified r =
     (if modified
      then r\<lparr>rv_overall := Math_round (((rv_food r + rv_delivery r + rv_service r) / 3) * 10) / 10\<rparr>
      else r)"

text \<open>\<open>xs.reduce((sum, x) => sum + f(x), 0) / xs.length\<close>\<close>

definition avgRating :: "('a \<Rightarrow> number) \<Rightarrow> 'a list \<Rightarrow> number" where
  "avgRating f xs = foldl (\<lambda>sum x. sum + f x) 0 xs / of_nat (length xs)"

text \<open>
  The hook after the save. \<open>findByIdAndUpdate\<close> writes the two fields of the document with
  that id, if there is one, and runs neither validators nor save hooks.
\<close>

definition updateRestaurantRating :: "db \<Rightarrow> review \<Rightarrow> db" where
  "updateRestaurantRating d doc =
     (let restaurantReviews = filter (\<lambda>r. rv_restaurant r = rv_restaurant doc) (db_reviews d)
      in if length restaurantReviews > 0
         then d\<lparr>db_restaurants :=
                  map (\<lambda>r. if r_id r = rv_restaurant doc
                           then r\<lparr>r_rating_average :=
                                    Math_round (avgRating rv_overall restaurantReviews * 10) / 10,
                                  r_rating_count := length restaurantReviews\<rparr>
                           else r)
                    (db_restaurants d)\<rparr>
         else d)"

definition updatePartnerRating :: "db \<Rightarrow> review \<Rightarrow> db" where
  "updatePartnerRating d doc =
     (case rv_deliveryPartner doc of
        None \<Rightarrow> d
      | Some p \<Rightarrow>
          (let partnerReviews = filter (\<lambda>r. rv_deliveryPartner r = Some p) (db_reviews d)
           in if length partnerReviews > 0
              then d\<lparr>db_partners :=
                       map (\<lambda>x. if dp_id x = p
                                then x\<lparr>dp_rating_average :=
                                         Math_round (avgRating rv_delivery partnerReviews * 10) / 10,
                                       dp_rating_count := length partnerReviews\<rparr>
                                else x)
                         (db_partners d)\<rparr>
              else d))"

definition updateItemRating :: "oid \<times> number \<Rightarrow> db \<Rightarrow> db" where
  "updateItemRating itemReview d =
     (let itemReviews =
            concat (map (\<lambda>r. filter (\<lambda>e. fst e = fst itemReview) (rv_menuItems r))
                      (db_reviews d))
      in if length itemReviews > 0
         then d\<lparr>db_menuItems :=
                  map (\<lambda>m. if mi_id m = fst itemReview
                           then m\<lparr>mi_rating_average :=
                                    Math_round (avgRating snd itemReviews * 10) / 10,
                                  mi_rating_count := length itemReviews\<rparr>
                           else m)
                    (db_menuItems d)\<rparr>
         else d)"

definition updateRatings :: "db \<Rightarrow> review \<Rightarrow> db" where
  "updateRatings d doc =
     fold updateItemRating (rv_menuItems doc)
       (updatePartnerRating (updateRestaurantRating d doc) doc)"

text \<open>
  \<open>review.save()\<close>, for a new review (\<open>Review.create\<close>) and for a changed one alike:
  validation, the unique index on \<open>order\<close>, the hook before, the write (in place when the
  id is stored already, at the end otherwise) and the hook after.
\<close>

definition review_save :: "db \<Rightarrow> review \<Rightarrow> bool \<Rightarrow> error + db" where
  "review_save d doc modified =
     (if \<not> valid_review doc then Inl ValidationError
      else if list_ex (\<lambda>r. rv_order r = rv_order doc \<and> rv_id r \<noteq> rv_id doc) (db_reviews d)
      then Inl DuplicateKey
      else
        (let doc1 = overall_hook modified doc;
             d1 = d\<lparr>db_reviews :=
                      (if list_ex (\<lambda>r. rv_id r = rv_id doc) (db_reviews d)
                       then map (\<lambda>r. if rv_id r = rv_id doc then doc1 else r) (db_reviews d)
                       else db_reviews d @ [doc1])\<rparr>
         in Inr (updateRatings d1 doc1)))"

section \<open>Requests in sequence\<close>

datatype request =
  CreateOrder user order_request string oid
  | UpdateOrderStatus user oid string "string option"
  | CancelOrder user oid "string option"
  | VerifyDeliveryOTP oid "string option"
  | AssignDeliveryPartner user oid oid
  | AcceptOrder user oid
  | UpdateMyProfile user profile_body
  | UpdateAvailability user bool
  | UpdateApprovalStatus oid bool
  | SaveReview review bool

text \<open>The store a request leaves: unchanged when it fails before writing.\<close>

definition left_by :: "db \<Rightarrow> error + db \<Rightarrow> db" where
  "left_by d r = (case r of Inl _ \<Rightarrow> d | Inr d1 \<Rightarrow> d1)"

fun handle :: "db \<Rightarrow> time \<times> request \<Rightarrow> db" where
  "handle d (now, CreateOrder usr rq otpCode new_id) =
     (case createOrder d usr rq now otpCode new_id of
        Inl _ \<Rightarrow> d
      | Inr ord \<Rightarrow> d\<lparr>db_orders := db_orders d @ [ord]\<rparr>)"
| "handle d (now, UpdateOrderStatus usr i status reason) =
     left_by d (updateOrderStatus d usr now i status reason)"
| "handle d (now, CancelOrder usr i reason) = left_by d (cancelOrder d usr now i reason)"
| "handle d (now, VerifyDeliveryOTP i supplied) = left_by d (verifyDeliveryOTP d now i supplied)"
| "handle d (now, AssignDeliveryPartner usr i p) =
     left_by d (assignDeliveryPartner d usr now i p)"
| "handle d (now, AcceptOrder usr i) =
     (case acceptOrder d usr now i of Inl (_, d1) \<Rightarrow> d1 | Inr d1 \<Rightarrow> d1)"
| "handle d (now, UpdateMyProfile usr body) = left_by d (updateMyProfile d usr body)"
| "handle d (now, UpdateAvailability usr isOnline) = left_by d (updateAvailability d usr isOnline)"
| "handle d (now, UpdateApprovalStatus i isApproved) =
     left_by d (updateApprovalStatus d i isApproved)"
| "handle d (now, SaveReview doc modified) = left_by d (review_save d doc modified)"

definition run :: "db \<Rightarrow> (time \<times> request) list \<Rightarrow> db" where
  "run d rs = foldl handle d rs"


section \<open>The words of the specification\<close>









text \<open>What the order and the partner of a user look like in a store.\<close>

definition status_of :: "db \<Rightarrow> oid \<Rightarrow> order_status option" where
  "status_of d i = map_option o_orderStatus (find_order d i)"

definition partner_of_order :: "db \<Rightarrow> oid \<Rightarrow> oid option option" where
  "partner_of_order d i = map_option o_deliveryPartner (find_order d i)"



section \<open>A small store\<close>

definition ex_restaurant :: restaurant where
  "ex_restaurant =
     \<lparr> r_id = 1, r_owner = 10, r_isActive = True, r_minimumOrder = 50, r_deliveryFee = 30,
       r_rating_average = 0, r_rating_count = 0 \<rparr>"

definition ex_item :: menuItem where
  "ex_item =
     \<lparr> mi_id = 3, mi_name = ''Burger'', mi_price = 100, mi_discountedPrice = Some 80,
       mi_isAvailable = True,
       mi_variants = [\<lparr> variant_name = ''Large'', variant_price = 150,
                        variant_discountedPrice = Some 120, variant_isAvailable = True \<rparr>],
       mi_addOns = [\<lparr> addOn_name = ''Cheese'', addOn_price = 20, addOn_isAvailable = True \<rparr>,
                    \<lparr> addOn_name = ''Bacon'', addOn_price = 40, addOn_isAvailable = False \<rparr>],
       mi_rating_average = 0, mi_rating_count = 0 \<rparr>"

definition ex_customer :: user where
  "ex_customer = \<lparr> u_id = 20, u_role = Customer \<rparr>"

definition ex_owner :: user where
  "ex_owner = \<lparr> u_id = 10, u_role = RestaurantOwner \<rparr>"

definition ex_rider :: user where
  "ex_rider = \<lparr> u_id = 41, u_role = Customer \<rparr>"

text \<open>Partner 31 is free; partner 32 is out with order 99.\<close>

definition ex_partner :: "oid \<Rightarrow> oid \<Rightarrow> oid option \<Rightarrow> partner" where
  "ex_partner p u cur =
     \<lparr> dp_id = p, dp_user = u, dp_isOnline = True, dp_isApproved = True, dp_totalOrders = 0,
       dp_completedOrders = 0, dp_completionRate = 0, dp_rating_average = 0,
       dp_rating_count = 0, dp_currentOrder = cur \<rparr>"

definition ex_db :: db where
  "ex_db =
     \<lparr> db_restaurants = [ex_restaurant], db_addresses = [\<lparr> a_id = 5, a_user = 20 \<rparr>],
       db_menuItems = [ex_item], db_orders = [],
       db_partners = [ex_partner 31 41 None, ex_partner 32 42 (Some 99)], db_reviews = [] \<rparr>"

definition ex_line :: cart_line where
  "ex_line =
     \<lparr> cl_menuItem = 3, cl_quantity = 2, cl_variant = None,
       cl_addOns = [\<lparr> ca_name = ''Cheese'', ca_price = Some 20 \<rparr>],
       cl_customizations = [], cl_specialInstructions = None \<rparr>"

text \<open>A line that names a variant the item does not have, and two add-ons: one the item
  does not have, one it has but that is unavailable.\<close>

definition ghost_line :: cart_line where
  "ghost_line =
     \<lparr> cl_menuItem = 3, cl_quantity = 2,
       cl_variant = Some \<lparr> cv_name = ''Ghost'', cv_price = Some 1 \<rparr>,
       cl_addOns = [\<lparr> ca_name = ''Ghost'', ca_price = Some 1 \<rparr>,
                    \<lparr> ca_name = ''Bacon'', ca_price = Some 40 \<rparr>],
       cl_customizations = [], cl_specialInstructions = None \<rparr>"

definition ex_request :: "oid \<Rightarrow> cart_line list \<Rightarrow> order_request" where
  "ex_request addr lines =
     \<lparr> rq_restaurant = 1, rq_items = lines, rq_deliveryAddress = addr,
       rq_paymentMethod = ''upi'', rq_specialInstructions = None \<rparr>"

text \<open>The order that \<open>ex_line\<close> creates, put in a given status with a given partner.\<close>

definition ex_order :: "oid \<Rightarrow> order_status \<Rightarrow> oid option \<Rightarrow> order" where
  "ex_order i st p =
     \<lparr> o_id = i, o_customer = 20, o_restaurant = 1, o_deliveryPartner = p,
       o_items = [\<lparr> oi_menuItem = 3, oi_name = ''Burger'', oi_price = 100,
                     oi_quantity = 2, oi_variant = None,
                     oi_addOns = [\<lparr> ca_name = ''Cheese'', ca_price = Some 20 \<rparr>],
                     oi_customizations = [], oi_specialInstructions = None,
                     oi_itemTotal = 240 \<rparr>],
       o_deliveryAddress = 5, o_orderStatus = st, o_paymentMethod = ''upi'',
       o_pricing = \<lparr> subtotal = 240, deliveryFee = 30, cgst = 6, sgst = 6, igst = 0,
                      platformFee = 5, packagingFee = 10, total = 297 \<rparr>,
       o_actualDeliveryTime = None, o_timeline = [], o_specialInstructions = None,
       o_cancellationReason = None, o_cancellationDetails = None,
       o_otp = Some \<lparr> otp_code = ''1234'', otp_expiresAt = 1800000 \<rparr> \<rparr>"

definition with_orders :: "order list \<Rightarrow> db" where
  "with_orders os = ex_db\<lparr>db_orders := os\<rparr>"

text \<open>Reviews of restaurant 1.\<close>

definition ex_review :: "oid \<Rightarrow> oid \<Rightarrow> number \<Rightarrow> bool \<Rightarrow> review" where
  "ex_review i ord x hidden =
     \<lparr> rv_id = i, rv_order = ord, rv_restaurant = 1, rv_deliveryPartner = None,
       rv_menuItems = [], rv_food = x, rv_delivery = x, rv_service = x, rv_overall = x,
       rv_isHidden = hidden \<rparr>"

definition with_reviews :: "review list \<Rightarrow> db" where
  "with_reviews rs = ex_db\<lparr>db_reviews := rs\<rparr>"


definition clear_currentOrder :: profile_body where
  "clear_currentOrder =
     \<lparr> pb_isOnline = None, pb_isApproved = None, pb_statistics = None,
       pb_currentOrder = Some None \<rparr>"

section \<open>Properties\<close>

subsection \<open>Evaluation\<close>

lemma floor_rat_numeral [simp]:
  "\<lfloor>(numeral a / numeral b :: rat)\<rfloor> = numeral a div numeral b"
  by (metis floor_divide_of_int_eq of_int_numeral)

lemmas ex_defs = ex_restaurant_def ex_item_def ex_customer_def ex_owner_def ex_rider_def
  ex_partner_def ex_db_def ex_line_def ghost_line_def ex_request_def ex_order_def
  with_orders_def ex_review_def with_reviews_def clear_currentOrder_def

lemmas valid_defs = valid_order_def valid_item_def valid_addOn_def valid_pricing_def
  valid_instructions_def valid_cancellationDetails_def paymentMethod_enum_def
  timeline_enum_def cancellationReason_enum_def cancelledBy_enum_def refundStatus_enum_def


subsection \<open>Order creation\<close>


lemma createOrder_Inr:
  assumes "createOrder d usr rq now otpCode new_id = Inr ord"
  shows "\<exists>restaurantData sub orderItems.
           find (\<lambda>r. r_id r = rq_restaurant rq) (db_restaurants d) = Some restaurantData
           \<and> r_isActive restaurantData
           \<and> order_lines (db_menuItems d) (rq_items rq) 0 [] = Inr (sub, orderItems)
           \<and> \<not> sub < r_minimumOrder restaurantData
           \<and> o_items ord = orderItems
           \<and> o_pricing ord = price_order sub (r_deliveryFee restaurantData)
           \<and> valid_order ord"
  using assms unfolding createOrder_def
  by (auto simp: Let_def split: option.splits sum.splits if_splits prod.splits)




lemma createOrder_valid:
  "createOrder d usr rq now otpCode new_id = Inr ord \<Longrightarrow> valid_order ord"
  using createOrder_Inr by blast





lemma find_None_names: "find (\<lambda>x. f x = n) xs = None \<longleftrightarrow> n \<notin> set (map f xs)"
  by (induction xs) auto





subsection \<open>Stored orders\<close>

lemma find_replace:
  "find (\<lambda>x. k x = i) xs = Some a \<Longrightarrow> k b = i
   \<Longrightarrow> find (\<lambda>x. k x = i) (map (\<lambda>x. if k x = i then b else x) xs) = Some b"
  by (induction xs) auto

lemma find_key: "find (\<lambda>x. k x = i) xs = Some a \<Longrightarrow> k a = i"
  by (induction xs) (auto split: if_splits)

lemma find_order_put:
  "find_order d i = Some ord \<Longrightarrow> o_id x = i \<Longrightarrow> find_order (put_order x d) i = Some x"
  by (simp add: find_order_def put_order_def find_replace)

lemma find_order_id: "find_order d i = Some ord \<Longrightarrow> o_id ord = i"
  unfolding find_order_def by (rule find_key)

lemma order_save_Inr:
  "valid_order doc \<Longrightarrow>
   order_save now old doc d =
     Inr (put_order
            (if o_orderStatus doc \<noteq> o_orderStatus old
             then doc\<lparr>o_timeline := o_timeline doc @ [(timeline_status (o_orderStatus doc), now)]\<rparr>
             else doc) d)"
  by (simp add: order_save_def)

text \<open>
  C3. For a stored, schema-valid order that holds an OTP: verification with the stored code
  at a time not after the expiry succeeds and leaves the order delivered, with the actual
  delivery time set to now and the OTP cleared; verification with another code, or after
  the expiry, fails with the invalid-or-expired error and writes nothing.
\<close>

theorem verifyDeliveryOTP_outcome:
  assumes "find_order d i = Some ord" and "o_otp ord = Some t" and "valid_order ord"
  shows "if supplied = Some (otp_code t) \<and> now \<le> otp_expiresAt t
         then \<exists>d' ord'. verifyDeliveryOTP d now i supplied = Inr d'
                \<and> find_order d' i = Some ord'
                \<and> o_orderStatus ord' = Delivered
                \<and> o_actualDeliveryTime ord' = Some now
                \<and> o_otp ord' = None
         else verifyDeliveryOTP d now i supplied = Inl InvalidOrExpiredOTP
              \<and> left_by d (verifyDeliveryOTP d now i supplied) = d"
proof (cases "supplied = Some (otp_code t) \<and> now \<le> otp_expiresAt t")
  case True
  let ?doc = "ord\<lparr>o_orderStatus := Delivered, o_actualDeliveryTime := Some now, o_otp := None\<rparr>"
  have v: "valid_order ?doc"
    using assms(3) by (simp add: valid_order_def)
  have "\<not> otp_rejected (o_otp ord) now supplied"
    using True assms(2) by (simp add: otp_rejected_def)
  then have run: "verifyDeliveryOTP d now i supplied = order_save now ord ?doc d"
    using assms(1) by (simp add: verifyDeliveryOTP_def)
  have id: "o_id ord = i"
    using assms(1) by (rule find_order_id)
  let ?saved = "if Delivered \<noteq> o_orderStatus ord
                then ?doc\<lparr>o_timeline := o_timeline ?doc @ [(timeline_status Delivered, now)]\<rparr>
                else ?doc"
  have res: "verifyDeliveryOTP d now i supplied = Inr (put_order ?saved d)"
    by (simp add: run order_save_Inr [OF v])
  have "o_id ?saved = i"
    using id by simp
  then have "find_order (put_order ?saved d) i = Some ?saved"
    using assms(1) by (rule find_order_put [rotated])
  moreover have "o_orderStatus ?saved = Delivered" "o_actualDeliveryTime ?saved = Some now"
    "o_otp ?saved = None"
    by simp_all
  ultimately show ?thesis
    using True res by auto
next
  case False
  then have "otp_rejected (o_otp ord) now supplied"
    using assms(2) by (auto simp: otp_rejected_def)
  then have "verifyDeliveryOTP d now i supplied = Inl InvalidOrExpiredOTP"
    using assms(1) by (simp add: verifyDeliveryOTP_def)
  then show ?thesis
    by (subst if_not_P [OF False]) (simp add: left_by_def)
qed

theorem verifyDeliveryOTP_outcome_witness:
  "find_order (with_orders [ex_order 7 OutForDelivery (Some 31)]) 7
     = Some (ex_order 7 OutForDelivery (Some 31))
   \<and> o_otp (ex_order 7 OutForDelivery (Some 31))
       = Some \<lparr> otp_code = ''1234'', otp_expiresAt = 1800000 \<rparr>
   \<and> valid_order (ex_order 7 OutForDelivery (Some 31))
   \<and> status_of (left_by (with_orders [ex_order 7 OutForDelivery (Some 31)])
        (verifyDeliveryOTP (with_orders [ex_order 7 OutForDelivery (Some 31)]) 1000 7 (Some ''1234'')))
        7 = Some Delivered
   \<and> verifyDeliveryOTP (with_orders [ex_order 7 OutForDelivery (Some 31)]) 1000 7 (Some ''4321'')
       = Inl InvalidOrExpiredOTP
   \<and> verifyDeliveryOTP (with_orders [ex_order 7 OutForDelivery (Some 31)]) 1800001 7 (Some ''1234'')
       = Inl InvalidOrExpiredOTP"
  using
    verifyDeliveryOTP_outcome [of "with_orders [ex_order 7 OutForDelivery (Some 31)]" 7
      "ex_order 7 OutForDelivery (Some 31)" "\<lparr> otp_code = ''1234'', otp_expiresAt = 1800000 \<rparr>"
      "Some ''1234''" 1000]
    verifyDeliveryOTP_outcome [of "with_orders [ex_order 7 OutForDelivery (Some 31)]" 7
      "ex_order 7 OutForDelivery (Some 31)" "\<lparr> otp_code = ''1234'', otp_expiresAt = 1800000 \<rparr>"
      "Some ''4321''" 1000]
    verifyDeliveryOTP_outcome [of "with_orders [ex_order 7 OutForDelivery (Some 31)]" 7
      "ex_order 7 OutForDelivery (Some 31)" "\<lparr> otp_code = ''1234'', otp_expiresAt = 1800000 \<rparr>"
      "Some ''1234''" 1800001]
  by (auto simp: ex_defs valid_defs find_order_def status_of_def left_by_def)


subsection \<open>The state machine\<close>

lemmas op_defs = verifyDeliveryOTP_def updateOrderStatus_def cancelOrder_def
  assignDeliveryPartner_def acceptOrder_def order_save_def partner_save_def canUpdate_def
  populated_restaurant_def partner_user_def otp_rejected_def find_order_def put_order_def
  find_partner_def find_partner_of_user_def cancellableStatuses_def str_or_def left_by_def
  status_of_def partner_of_order_def valid_partner_def completion_hook_def

lemma find_target:
  "find (\<lambda>t. status_name t = status) (validTransitions s) = Some t
   \<Longrightarrow> t \<in> set (validTransitions s) \<and> status_name t = status"
  by (cases s) (auto split: if_splits)

lemma find_cancelled:
  "Cancelled \<in> set (validTransitions s)
   \<Longrightarrow> find (\<lambda>t. status_name t = ''cancelled'') (validTransitions s) = Some Cancelled"
  by (cases s) auto

lemma updateOrderStatus_respects_table:
  assumes "find_order d i = Some ord"
    and "updateOrderStatus d usr now i status reason = Inr d'"
  shows "\<exists>t. status_of d' i = Some t \<and> t \<in> set (validTransitions (o_orderStatus ord))
             \<and> status_name t = status"
proof -
  from assms obtain t where
    t: "find (\<lambda>t. status_name t = status) (validTransitions (o_orderStatus ord)) = Some t"
    by (auto simp: updateOrderStatus_def split: sum.splits if_splits option.splits)
  have id: "o_id ord = i"
    using assms(1) by (rule find_order_id)
  from assms t obtain doc where
    "d' = put_order doc d" and "o_id doc = i" and "o_orderStatus doc = t"
    using id
    by (auto simp: updateOrderStatus_def order_save_def Let_def
             split: sum.splits if_splits option.splits)
  then have "status_of d' i = Some t"
    using assms(1) by (simp add: status_of_def find_order_put)
  with find_target [OF t] show ?thesis
    by blast
qed

lemma updateOrderStatus_rejects_outside_table:
  assumes "find_order d i = Some ord"
    and "status \<notin> set (map status_name (validTransitions (o_orderStatus ord)))"
  shows "isl (updateOrderStatus d usr now i status reason)"
proof -
  have "find (\<lambda>t. status_name t = status) (validTransitions (o_orderStatus ord)) = None"
    using assms(2) find_None_names [of status_name status "validTransitions (o_orderStatus ord)"]
    by blast
  with assms(1) show ?thesis
    by (simp add: updateOrderStatus_def split: sum.splits)
qed

text \<open>
  C1. Every operation that changes the order status is to respect the transition table.
  A pending order holds its OTP from creation; verifying that OTP moves the order from
  pending to delivered, a transition the table does not have.
\<close>

theorem verifyDeliveryOTP_skips_table:
  "Delivered \<notin> set (validTransitions Pending)
   \<and> status_of (with_orders [ex_order 7 Pending None]) 7 = Some Pending
   \<and> \<not> isl (verifyDeliveryOTP (with_orders [ex_order 7 Pending None]) 1000 7 (Some ''1234''))
   \<and> status_of
         (left_by (with_orders [ex_order 7 Pending None])
            (verifyDeliveryOTP (with_orders [ex_order 7 Pending None]) 1000 7 (Some ''1234'')))
         7 = Some Delivered"
  by (simp add: ex_defs op_defs valid_defs)

text \<open>
  C6. A customer is to be refused a cancellation once the order is ready for pickup, on
  both operations. The dedicated cancel operation refuses it; the generic status update,
  asked by the same customer for the same order, cancels the order.
\<close>

theorem customer_cancels_ready_order:
  "u_role ex_customer = Customer
   \<and> o_customer (ex_order 7 ReadyForPickup None) = u_id ex_customer
   \<and> ReadyForPickup \<notin> set cancellableStatuses
   \<and> cancelOrder (with_orders [ex_order 7 ReadyForPickup None]) ex_customer 1000 7 None
       = Inl CannotBeCancelled
   \<and> \<not> isl (updateOrderStatus (with_orders [ex_order 7 ReadyForPickup None]) ex_customer 1000 7
               ''cancelled'' None)
   \<and> status_of
         (left_by (with_orders [ex_order 7 ReadyForPickup None])
            (updateOrderStatus (with_orders [ex_order 7 ReadyForPickup None]) ex_customer 1000 7
               ''cancelled'' None))
         7 = Some Cancelled"
  by (simp add: ex_defs op_defs valid_defs)

text \<open>
  C8. Both operations that attach a delivery partner are to refuse an order that has a
  partner already and a partner who is out with another order, and are to set the
  partner's current order and count the order. The order below is assigned to partner 31;
  the restaurant owner assigns it to partner 32, who is out with order 99: the assignment
  succeeds, the order now names partner 32, and no partner document has changed.
\<close>

theorem assignDeliveryPartner_unguarded:
  "partner_of_order (with_orders [ex_order 7 ReadyForPickup (Some 31)]) 7 = Some (Some 31)
   \<and> map_option dp_currentOrder (find_partner (with_orders [ex_order 7 ReadyForPickup (Some 31)]) 32)
       = Some (Some 99)
   \<and> \<not> isl (assignDeliveryPartner (with_orders [ex_order 7 ReadyForPickup (Some 31)])
               ex_owner 1000 7 32)
   \<and> partner_of_order
         (left_by (with_orders [ex_order 7 ReadyForPickup (Some 31)])
            (assignDeliveryPartner (with_orders [ex_order 7 ReadyForPickup (Some 31)])
               ex_owner 1000 7 32))
         7 = Some (Some 32)
   \<and> db_partners
         (left_by (with_orders [ex_order 7 ReadyForPickup (Some 31)])
            (assignDeliveryPartner (with_orders [ex_order 7 ReadyForPickup (Some 31)])
               ex_owner 1000 7 32))
       = db_partners (with_orders [ex_order 7 ReadyForPickup (Some 31)])"
  by (simp add: ex_defs op_defs valid_defs)

text \<open>
  C10. The generic status update writes the caller's role string into
  \<open>cancellationDetails.cancelledBy\<close>. The role strings are customer, restaurant_owner and
  admin; the schema accepts customer, restaurant, admin and system. So a cancellation by
  a user of role restaurant_owner that passes the permission check and the transition
  table is rejected by validation when the order is saved.
\<close>

theorem owner_cancellation_fails_validation:
  assumes "find_order d i = Some ord"
    and "u_role usr = RestaurantOwner"
    and "canUpdate d usr ord ''cancelled'' = Inr True"
    and "Cancelled \<in> set (validTransitions (o_orderStatus ord))"
  shows "updateOrderStatus d usr now i ''cancelled'' reason = Inl ValidationError
         \<and> role_name (u_role usr) \<notin> set cancelledBy_enum
         \<and> set (map role_name [Customer, RestaurantOwner, Admin])
             = {''customer'', ''restaurant_owner'', ''admin''}"
proof -
  have bad: "\<not> valid_order
      (ord\<lparr>o_orderStatus := Cancelled, o_cancellationReason := Some ''customer_request'',
           o_cancellationDetails := Some
             \<lparr> cd_reason = str_or reason ''No reason provided'',
               cd_cancelledBy = ''restaurant_owner'',
               cd_refundAmount = total (o_pricing ord), cd_refundStatus = ''pending'' \<rparr>\<rparr>)"
    by (simp add: valid_order_def valid_cancellationDetails_def cancelledBy_enum_def)
  show ?thesis
    using assms(1,2,3) find_cancelled [OF assms(4)] bad
    by (auto simp: updateOrderStatus_def order_save_def cancelledBy_enum_def Let_def)
qed

theorem owner_cancellation_fails_validation_witness:
  "find_order (with_orders [ex_order 7 Pending None]) 7 = Some (ex_order 7 Pending None)
   \<and> u_role ex_owner = RestaurantOwner
   \<and> canUpdate (with_orders [ex_order 7 Pending None]) ex_owner (ex_order 7 Pending None)
        ''cancelled'' = Inr True
   \<and> Cancelled \<in> set (validTransitions (o_orderStatus (ex_order 7 Pending None)))
   \<and> updateOrderStatus (with_orders [ex_order 7 Pending None]) ex_owner 1000 7 ''cancelled'' None
       = Inl ValidationError"
  using owner_cancellation_fails_validation
    [of "with_orders [ex_order 7 Pending None]" 7 "ex_order 7 Pending None" ex_owner 1000 None]
  by (simp add: ex_defs find_order_def canUpdate_def populated_restaurant_def partner_user_def)


subsection \<open>Ratings\<close>
















subsection \<open>Partners across requests\<close>





























lemma acceptOrder_guards:
  assumes "acceptOrder d usr now i = Inr d1"
  shows "\<exists>p ord. find_partner_of_user d (u_id usr) = Some p \<and> dp_isOnline p
           \<and> dp_currentOrder p = None \<and> find_order d i = Some ord
           \<and> o_orderStatus ord = ReadyForPickup \<and> o_deliveryPartner ord = None"
  using assms
  by (auto simp: acceptOrder_def split: option.splits sum.splits if_splits)






end
